theory Spec2Isabelle
  imports Main "HOL-Library.Log_Nat"
begin

section \<open>JavaScript numbers\<close>

text \<open>
  Every coordinate in \<^verbatim>\<open>createSpreadPage.js\<close>, \<^verbatim>\<open>drawCutMarks.js\<close> and
  \<^verbatim>\<open>drawMiddleMarks.js\<close> is a JavaScript number, that is an IEEE 754 binary64 value,
  and the only arithmetic the three files perform is binary \<^verbatim>\<open>+\<close> and \<^verbatim>\<open>-\<close>.
  A number is modelled as NaN, one of the two infinities, or a finite value given by the
  rational it denotes. The two zeros are identified: they are equal under \<^verbatim>\<open>===\<close>
  and no operation used here tells them apart. Every operation rounds its result, so a
  value \<open>Fin q\<close> that an operation returns is a binary64 value; an input \<open>Fin q\<close> is one
  when rounding leaves \<open>q\<close> as it is.
\<close>

datatype jsnum = NaN | PosInf | NegInf | Fin rat

text \<open>\<open>floor_log2 q\<close> is the binary exponent of a positive rational: the \<open>e\<close> with
  \<open>2 powi e \<le> q < 2 powi (e + 1)\<close>.\<close>

definition floor_log2 :: "rat \<Rightarrow> int" where
  "floor_log2 q =
     (let d = bitlen (fst (quotient_of q)) - bitlen (snd (quotient_of q))
      in if 2 powi d \<le> q then d else d - 1)"

text \<open>Rounding to the nearest integer, a tie going to the even neighbour.\<close>

definition round_half_even :: "rat \<Rightarrow> int" where
  "round_half_even m =
     (let n = \<lfloor>m\<rfloor>; r = m - of_int n
      in if r < 1 / 2 then n
         else if 1 / 2 < r then n + 1
         else if even n then n else n + 1)"

text \<open>The overflow threshold \<open>2 ^ 1024\<close>, written out so that it evaluates at once.\<close>

definition overflowBound :: rat where
  "overflowBound = 179769313486231590772930519078902473361797697894230657273430081157732675805500963132708477322407536021120113879871393357658789768814416622492847430639474124377767893424865485276302219601246094119453082952085005768838150682342462881473913110540827237163350510684586298239947245938479716304835356329624224137216"

text \<open>
  Rounding of an exact result to binary64, round to nearest, ties to even: 53 significant
  bits above the exponent \<open>- 1022\<close>, the fixed spacing \<open>2 powi (- 1074)\<close> of the
  subnormal range below it, and an infinity once the rounded magnitude reaches
  \<open>2 ^ 1024\<close>.
\<close>

definition roundDouble :: "rat \<Rightarrow> jsnum" where
  "roundDouble q =
     (if q = 0 then Fin 0
      else let u = 2 powi (max (floor_log2 \<bar>q\<bar>) (- 1022) - 52);
               r = of_int (round_half_even (q / u)) * u
           in if overflowBound \<le> r then PosInf
              else if r \<le> - overflowBound then NegInf
              else Fin r)"

text \<open>\<^verbatim>\<open>x + y\<close> on numbers (ECMAScript \<^verbatim>\<open>Number::add\<close>).\<close>

fun jsAdd :: "jsnum \<Rightarrow> jsnum \<Rightarrow> jsnum" where
  "jsAdd NaN _ = NaN"
| "jsAdd _ NaN = NaN"
| "jsAdd PosInf NegInf = NaN"
| "jsAdd NegInf PosInf = NaN"
| "jsAdd PosInf _ = PosInf"
| "jsAdd _ PosInf = PosInf"
| "jsAdd NegInf _ = NegInf"
| "jsAdd _ NegInf = NegInf"
| "jsAdd (Fin a) (Fin b) = roundDouble (a + b)"

fun jsNeg :: "jsnum \<Rightarrow> jsnum" where
  "jsNeg NaN = NaN"
| "jsNeg PosInf = NegInf"
| "jsNeg NegInf = PosInf"
| "jsNeg (Fin a) = Fin (- a)"

text \<open>\<^verbatim>\<open>x - y\<close> on numbers (\<^verbatim>\<open>Number::subtract\<close>) is \<^verbatim>\<open>x + (-y)\<close>.\<close>

definition jsSub :: "jsnum \<Rightarrow> jsnum \<Rightarrow> jsnum" where
  "jsSub x y = jsAdd x (jsNeg y)"

instantiation jsnum :: "{plus, minus}"
begin

definition plus_jsnum :: "jsnum \<Rightarrow> jsnum \<Rightarrow> jsnum" where
  "plus_jsnum x y = jsAdd x y"

definition minus_jsnum :: "jsnum \<Rightarrow> jsnum \<Rightarrow> jsnum" where
  "minus_jsnum x y = jsSub x y"

instance ..

end

section \<open>The page and document primitives of pdf-lib\<close>

text \<open>
  \<^verbatim>\<open>{ x, y }\<close>, the value of \<^verbatim>\<open>rgb(r, g, b)\<close>, the options object of
  \<^verbatim>\<open>page.drawLine\<close> and the options object of \<^verbatim>\<open>page.drawPage\<close>.
\<close>

record point =
  pt_x :: jsnum
  pt_y :: jsnum

datatype color = RGB jsnum jsnum jsnum

definition rgb :: "jsnum \<Rightarrow> jsnum \<Rightarrow> jsnum \<Rightarrow> color" where
  "rgb r g b = RGB r g b"

record lineOptions =
  ln_start :: point
  ln_end :: point
  ln_thickness :: jsnum
  ln_color :: color

record drawPageOptions =
  dp_x :: jsnum
  dp_y :: jsnum
  dp_width :: jsnum
  dp_height :: jsnum

text \<open>
  A page is its size and the draw calls made on it, in call order; \<open>'r\<close> is the type of
  embedded page handles. A document is the list of its pages. Pages are JavaScript objects
  shared between the document and whoever holds a reference, so a page reference is an
  index into the document, and drawing on a page updates the document.
\<close>

datatype 'r drawCall = DrawPage 'r drawPageOptions | DrawLine lineOptions

record 'r pdfPage =
  pg_size :: "jsnum \<times> jsnum"
  pg_calls :: "'r drawCall list"

type_synonym 'r pdfDocument = "'r pdfPage list"

text \<open>
  The source does not fix when a pdf-lib primitive throws, so this is a parameter: for each
  primitive, the exception it throws on the given state and arguments, if any.
\<close>

record ('r, 'e) pdfLib =
  addPage_throws :: "'r pdfDocument \<Rightarrow> jsnum \<times> jsnum \<Rightarrow> 'e option"
  drawPage_throws :: "'r pdfPage \<Rightarrow> 'r \<Rightarrow> drawPageOptions \<Rightarrow> 'e option"
  drawLine_throws :: "'r pdfPage \<Rightarrow> lineOptions \<Rightarrow> 'e option"

definition neverThrows :: "('r, 'e) pdfLib \<Rightarrow> bool" where
  "neverThrows L \<longleftrightarrow>
     (\<forall>doc sz. addPage_throws L doc sz = None) \<and>
     (\<forall>pg r opts. drawPage_throws L pg r opts = None) \<and>
     (\<forall>pg opts. drawLine_throws L pg opts = None)"

text \<open>A pdf-lib with primitives that accept every argument.\<close>

definition totalLib :: "('r, 'e) pdfLib" where
  "totalLib =
     \<lparr>addPage_throws = (\<lambda>doc sz. None),
      drawPage_throws = (\<lambda>pg r opts. None),
      drawLine_throws = (\<lambda>pg opts. None)\<rparr>"

text \<open>Sequencing of calls that may throw: \<open>Inl\<close> is the exception, which skips the rest.\<close>

definition thenE :: "'e + 'a \<Rightarrow> ('a \<Rightarrow> 'e + 'b) \<Rightarrow> 'e + 'b" where
  "thenE m f = (case m of Inl e \<Rightarrow> Inl e | Inr a \<Rightarrow> f a)"

definition recordCall :: "'r pdfDocument \<Rightarrow> nat \<Rightarrow> 'r drawCall \<Rightarrow> 'r pdfDocument" where
  "recordCall doc page c =
     (if page < length doc
      then doc[page := (doc ! page)\<lparr>pg_calls := pg_calls (doc ! page) @ [c]\<rparr>]
      else doc)"

text \<open>
  Modelled from the spec: pdf-lib's \<^verbatim>\<open>PDFDocument.addPage\<close>, \<^verbatim>\<open>PDFPage.drawPage\<close> and
  \<^verbatim>\<open>PDFPage.drawLine\<close> are an external library, not part of the repository. Following the
  external interfaces of the spec, \<open>addPage\<close> allocates a new page of the given size at
  the end of the document and returns it, \<open>drawPage\<close> places embedded content at a
  rectangle of the page and \<open>drawLine\<close> strokes a segment on it; each either throws or
  records its call on the page. A reference to a page that the document does not hold
  cannot arise from \<open>addPage\<close>; drawing through one leaves the document as it is.
\<close>

definition addPage ::
  "('r, 'e) pdfLib \<Rightarrow> 'r pdfDocument \<Rightarrow> jsnum \<times> jsnum \<Rightarrow> 'e + ('r pdfDocument \<times> nat)" where
  "addPage L doc sz =
     (case addPage_throws L doc sz of
        Some e \<Rightarrow> Inl e
      | None \<Rightarrow> Inr (doc @ [\<lparr>pg_size = sz, pg_calls = []\<rparr>], length doc))"

definition drawPage ::
  "('r, 'e) pdfLib \<Rightarrow> 'r pdfDocument \<Rightarrow> nat \<Rightarrow> 'r \<Rightarrow> drawPageOptions \<Rightarrow> 'e + 'r pdfDocument" where
  "drawPage L doc page r opts =
     (if page < length doc
      then (case drawPage_throws L (doc ! page) r opts of
              Some e \<Rightarrow> Inl e
            | None \<Rightarrow> Inr (recordCall doc page (DrawPage r opts)))
      else Inr doc)"

definition drawLine ::
  "('r, 'e) pdfLib \<Rightarrow> 'r pdfDocument \<Rightarrow> nat \<Rightarrow> lineOptions \<Rightarrow> 'e + 'r pdfDocument" where
  "drawLine L doc page opts =
     (if page < length doc
      then (case drawLine_throws L (doc ! page) opts of
              Some e \<Rightarrow> Inl e
            | None \<Rightarrow> Inr (recordCall doc page (DrawLine opts)))
      else Inr doc)"

section \<open>drawCutMarks.js\<close>

text \<open>The local arrow function \<^verbatim>\<open>drawLine(x1, y1, x2, y2)\<close> of \<^verbatim>\<open>drawCutMarks\<close>.\<close>

definition cutLine :: "jsnum \<Rightarrow> jsnum \<Rightarrow> jsnum \<Rightarrow> jsnum \<Rightarrow> lineOptions" where
  "cutLine x1 y1 x2 y2 =
     \<lparr>ln_start = \<lparr>pt_x = x1, pt_y = y1\<rparr>,
      ln_end = \<lparr>pt_x = x2, pt_y = y2\<rparr>,
      ln_thickness = Fin 1,
      ln_color = rgb (Fin 0) (Fin 0) (Fin 0)\<rparr>"

definition drawCutMarks ::
  "('r, 'e) pdfLib \<Rightarrow> 'r pdfDocument \<Rightarrow> nat \<Rightarrow> jsnum \<Rightarrow> jsnum \<Rightarrow> jsnum \<Rightarrow> 'e + 'r pdfDocument" where
  "drawCutMarks L doc page width height bleed =
     (let drawLine' = (\<lambda>x1 y1 x2 y2 doc. drawLine L doc page (cutLine x1 y1 x2 y2)) in
      thenE (drawLine' (bleed - Fin 10) (bleed + Fin 7) bleed (bleed + Fin 7) doc) (\<lambda>doc.
      thenE (drawLine' (bleed + Fin 7) (bleed - Fin 10) (bleed + Fin 7) bleed doc) (\<lambda>doc.
      thenE (drawLine' (width - bleed) (bleed + Fin 7) (width - bleed + Fin 10) (bleed + Fin 7) doc) (\<lambda>doc.
      thenE (drawLine' (width - bleed - Fin 7) (bleed - Fin 10) (width - bleed - Fin 7) bleed doc) (\<lambda>doc.
      thenE (drawLine' (bleed - Fin 10) (height - bleed - Fin 16) (bleed + Fin 1) (height - bleed - Fin 16) doc) (\<lambda>doc.
      thenE (drawLine' (bleed + Fin 7) (height - bleed - Fin 10) (bleed + Fin 7) (height - bleed) doc) (\<lambda>doc.
      thenE (drawLine' (width - bleed - Fin 2) (height - bleed - Fin 16) (width - bleed + Fin 9) (height - bleed - Fin 16) doc) (\<lambda>doc.
      drawLine' (width - bleed - Fin 8) (height - bleed - Fin 9) (width - bleed - Fin 8) (height - bleed + Fin 1) doc))))))))"

section \<open>drawMiddleMarks.js\<close>

text \<open>The \<^verbatim>\<open>options\<close> object; the last three properties may be left out.\<close>

record middleOptions =
  mo_imgWidth :: jsnum
  mo_bleed :: jsnum
  mo_finalHeight :: jsnum
  mo_extraGutter :: "jsnum option"
  mo_offset1 :: "jsnum option"
  mo_offset2 :: "jsnum option"

text \<open>A destructuring default \<^verbatim>\<open>name = d\<close>: the default replaces a missing property.\<close>

definition orDefault :: "'a option \<Rightarrow> 'a \<Rightarrow> 'a" where
  "orDefault v d = (case v of None \<Rightarrow> d | Some a \<Rightarrow> a)"

text \<open>The local arrow function \<^verbatim>\<open>drawLine(x, y1, y2)\<close> of \<^verbatim>\<open>drawMiddleMarks\<close>.\<close>

definition middleLine :: "jsnum \<Rightarrow> jsnum \<Rightarrow> jsnum \<Rightarrow> lineOptions" where
  "middleLine x y1 y2 =
     \<lparr>ln_start = \<lparr>pt_x = x, pt_y = y1\<rparr>,
      ln_end = \<lparr>pt_x = x, pt_y = y2\<rparr>,
      ln_thickness = Fin 1,
      ln_color = rgb (Fin 0) (Fin 0) (Fin 0)\<rparr>"

definition drawMiddleMarks ::
  "('r, 'e) pdfLib \<Rightarrow> 'r pdfDocument \<Rightarrow> nat \<Rightarrow> middleOptions \<Rightarrow> 'e + 'r pdfDocument" where
  "drawMiddleMarks L doc page options =
     (let imgWidth = mo_imgWidth options;
          bleed = mo_bleed options;
          finalHeight = mo_finalHeight options;
          extraGutter = orDefault (mo_extraGutter options) (Fin 0);
          offset1 = orDefault (mo_offset1 options) (Fin (- 1));
          offset2 = orDefault (mo_offset2 options) (Fin 30);
          centerX1 = imgWidth + bleed + offset1;
          centerX2 = imgWidth + bleed + extraGutter;
          centerX3 = imgWidth + bleed + offset2;
          drawLine' = (\<lambda>x y1 y2 doc. drawLine L doc page (middleLine x y1 y2)) in
      thenE (drawLine' (centerX1 + Fin 1) (bleed - Fin 10) bleed doc) (\<lambda>doc.
      drawLine' (centerX1 + Fin 1) (finalHeight - bleed - Fin 10) (finalHeight - bleed) doc))"

section \<open>createSpreadPage.js\<close>

text \<open>The options object of \<^verbatim>\<open>createSpreadPage\<close>; either page and the gutter may be
  left out.\<close>

record 'r spreadOptions =
  so_leftPage :: "'r option"
  so_rightPage :: "'r option"
  so_width :: jsnum
  so_height :: jsnum
  so_marginX :: jsnum
  so_marginY :: jsnum
  so_imgWidth :: jsnum
  so_imgHeight :: jsnum
  so_bleed :: jsnum
  so_extraGutter :: "jsnum option"

definition createSpreadPage ::
  "('r, 'e) pdfLib \<Rightarrow> 'r pdfDocument \<Rightarrow> 'r spreadOptions \<Rightarrow> 'e + ('r pdfDocument \<times> nat)" where
  "createSpreadPage L doc options =
     (let leftPage = so_leftPage options;
          rightPage = so_rightPage options;
          width = so_width options;
          height = so_height options;
          marginX = so_marginX options;
          marginY = so_marginY options;
          imgWidth = so_imgWidth options;
          imgHeight = so_imgHeight options;
          bleed = so_bleed options;
          extraGutter = orDefault (so_extraGutter options) (Fin 0) in
      thenE (addPage L doc (width, height)) (\<lambda>(doc, page).
      thenE (case leftPage of
               Some l \<Rightarrow> drawPage L doc page l
                 \<lparr>dp_x = marginX, dp_y = marginY, dp_width = imgWidth, dp_height = imgHeight\<rparr>
             | None \<Rightarrow> Inr doc) (\<lambda>doc.
      thenE (case rightPage of
               Some r \<Rightarrow> drawPage L doc page r
                 \<lparr>dp_x = marginX + imgWidth, dp_y = marginY, dp_width = imgWidth, dp_height = imgHeight\<rparr>
             | None \<Rightarrow> Inr doc) (\<lambda>doc.
      thenE (drawCutMarks L doc page width height bleed) (\<lambda>doc.
      thenE (drawMiddleMarks L doc page
               \<lparr>mo_imgWidth = imgWidth, mo_bleed = bleed, mo_finalHeight = height,
                mo_extraGutter = Some extraGutter, mo_offset1 = None, mo_offset2 = None\<rparr>) (\<lambda>doc.
      Inr (doc, page)))))))"

section \<open>Notions used to state the properties\<close>

text \<open>A segment stroked with width 1 in black, as both mark renderers draw it.\<close>

definition blackSegment :: "jsnum \<Rightarrow> jsnum \<Rightarrow> jsnum \<Rightarrow> jsnum \<Rightarrow> lineOptions" where
  "blackSegment x1 y1 x2 y2 =
     \<lparr>ln_start = \<lparr>pt_x = x1, pt_y = y1\<rparr>,
      ln_end = \<lparr>pt_x = x2, pt_y = y2\<rparr>,
      ln_thickness = Fin 1,
      ln_color = RGB (Fin 0) (Fin 0) (Fin 0)\<rparr>"

text \<open>
  The offset table of the Cut-Mark Renderer as the specification prints it, row by row:
  bottom-left, bottom-right, top-left and top-right corner, the horizontal segment before
  the vertical one, each row a start point and an end point.
\<close>

definition cutMarkTable ::
  "jsnum \<Rightarrow> jsnum \<Rightarrow> jsnum \<Rightarrow> ((jsnum \<times> jsnum) \<times> (jsnum \<times> jsnum)) list" where
  "cutMarkTable width height bleed =
     [((bleed - Fin 10, bleed + Fin 7), (bleed, bleed + Fin 7)),
      ((bleed + Fin 7, bleed - Fin 10), (bleed + Fin 7, bleed)),
      ((width - bleed, bleed + Fin 7), (width - bleed + Fin 10, bleed + Fin 7)),
      ((width - bleed - Fin 7, bleed - Fin 10), (width - bleed - Fin 7, bleed)),
      ((bleed - Fin 10, height - bleed - Fin 16), (bleed + Fin 1, height - bleed - Fin 16)),
      ((bleed + Fin 7, height - bleed - Fin 10), (bleed + Fin 7, height - bleed)),
      ((width - bleed - Fin 2, height - bleed - Fin 16), (width - bleed + Fin 9, height - bleed - Fin 16)),
      ((width - bleed - Fin 8, height - bleed - Fin 9), (width - bleed - Fin 8, height - bleed + Fin 1))]"

definition tableSegment :: "(jsnum \<times> jsnum) \<times> (jsnum \<times> jsnum) \<Rightarrow> lineOptions" where
  "tableSegment row = blackSegment (fst (fst row)) (snd (fst row)) (fst (snd row)) (snd (snd row))"

text \<open>The two ticks of the Center-Gutter Mark Renderer at a given \<open>x\<close>, as the
  specification describes them.\<close>

definition gutterSegments :: "jsnum \<Rightarrow> jsnum \<Rightarrow> jsnum \<Rightarrow> lineOptions list" where
  "gutterSegments x bleed finalHeight =
     [blackSegment x (bleed - Fin 10) x bleed,
      blackSegment x (finalHeight - bleed - Fin 10) x (finalHeight - bleed)]"

text \<open>The document after further calls have been recorded on one of its pages.\<close>

definition appendCalls :: "'r pdfDocument \<Rightarrow> nat \<Rightarrow> 'r drawCall list \<Rightarrow> 'r pdfDocument" where
  "appendCalls doc page cs =
     (if page < length doc
      then doc[page := (doc ! page)\<lparr>pg_calls := pg_calls (doc ! page) @ cs\<rparr>]
      else doc)"

text \<open>The image placements and the line segments among the calls of a page, in call order.\<close>

fun placementsOf :: "'r drawCall list \<Rightarrow> ('r \<times> drawPageOptions) list" where
  "placementsOf [] = []"
| "placementsOf (DrawPage r opts # cs) = (r, opts) # placementsOf cs"
| "placementsOf (DrawLine opts # cs) = placementsOf cs"

fun linesOf :: "'r drawCall list \<Rightarrow> lineOptions list" where
  "linesOf [] = []"
| "linesOf (DrawPage r opts # cs) = linesOf cs"
| "linesOf (DrawLine opts # cs) = opts # linesOf cs"

text \<open>The two rectangles at which the Spread Composer places the left and the right page.\<close>

definition leftRect :: "'r spreadOptions \<Rightarrow> drawPageOptions" where
  "leftRect options =
     \<lparr>dp_x = so_marginX options, dp_y = so_marginY options,
      dp_width = so_imgWidth options, dp_height = so_imgHeight options\<rparr>"

definition rightRect :: "'r spreadOptions \<Rightarrow> drawPageOptions" where
  "rightRect options =
     \<lparr>dp_x = so_marginX options + so_imgWidth options, dp_y = so_marginY options,
      dp_width = so_imgWidth options, dp_height = so_imgHeight options\<rparr>"


text \<open>An exception that one of the pdf-lib primitives throws on some state and arguments.\<close>

definition thrownByPrimitive :: "('r, 'e) pdfLib \<Rightarrow> 'e \<Rightarrow> bool" where
  "thrownByPrimitive L e \<longleftrightarrow>
     (\<exists>doc sz. addPage_throws L doc sz = Some e) \<or>
     (\<exists>pg r opts. drawPage_throws L pg r opts = Some e) \<or>
     (\<exists>pg opts. drawLine_throws L pg opts = Some e)"



text \<open>
  The calls that the Spread Composer is specified to make on the new page, in order: a
  placement for each page that is present, the eight cut marks, the two gutter ticks.
\<close>

definition placementCalls :: "'r spreadOptions \<Rightarrow> 'r drawCall list" where
  "placementCalls options =
     (case so_leftPage options of None \<Rightarrow> [] | Some l \<Rightarrow> [DrawPage l (leftRect options)]) @
     (case so_rightPage options of None \<Rightarrow> [] | Some r \<Rightarrow> [DrawPage r (rightRect options)])"

definition spreadCalls :: "'r spreadOptions \<Rightarrow> 'r drawCall list" where
  "spreadCalls options =
     placementCalls options @
     map (DrawLine \<circ> tableSegment)
       (cutMarkTable (so_width options) (so_height options) (so_bleed options)) @
     map DrawLine
       (gutterSegments (so_imgWidth options + so_bleed options + Fin (- 1) + Fin 1)
          (so_bleed options) (so_height options))"

definition spreadPage :: "'r spreadOptions \<Rightarrow> 'r pdfPage" where
  "spreadPage options =
     \<lparr>pg_size = (so_width options, so_height options), pg_calls = spreadCalls options\<rparr>"

text \<open>
  The outcome of the primitives on the calls that are made. \<open>callThrows\<close> is the
  exception, if any, that the primitive of a draw call throws on a page in a given state.
  \<open>firstThrowOn\<close> goes through a list of calls in order, each call seeing the page as the
  calls before it left it, and gives the exception of the first call that throws.
  \<open>firstThrow\<close> does so for the Spread Composer: the \<open>addPage\<close> call on the document, then
  the calls of \<open>spreadCalls\<close> on the new page.
\<close>

definition callThrows :: "('r, 'e) pdfLib \<Rightarrow> 'r pdfPage \<Rightarrow> 'r drawCall \<Rightarrow> 'e option" where
  "callThrows L pg c =
     (case c of
        DrawPage r opts \<Rightarrow> drawPage_throws L pg r opts
      | DrawLine opts \<Rightarrow> drawLine_throws L pg opts)"

fun firstThrowOn :: "('r, 'e) pdfLib \<Rightarrow> 'r pdfPage \<Rightarrow> 'r drawCall list \<Rightarrow> 'e option" where
  "firstThrowOn L pg [] = None"
| "firstThrowOn L pg (c # cs) =
     (case callThrows L pg c of
        Some e \<Rightarrow> Some e
      | None \<Rightarrow> firstThrowOn L (pg\<lparr>pg_calls := pg_calls pg @ [c]\<rparr>) cs)"

definition firstThrow :: "('r, 'e) pdfLib \<Rightarrow> 'r pdfDocument \<Rightarrow> 'r spreadOptions \<Rightarrow> 'e option" where
  "firstThrow L doc options =
     (case addPage_throws L doc (so_width options, so_height options) of
        Some e \<Rightarrow> Some e
      | None \<Rightarrow>
          firstThrowOn L \<lparr>pg_size = (so_width options, so_height options), pg_calls = []\<rparr>
            (spreadCalls options))"

text \<open>Making one call, or a list of calls in order, on a page of the document.\<close>

definition performCall ::
  "('r, 'e) pdfLib \<Rightarrow> 'r pdfDocument \<Rightarrow> nat \<Rightarrow> 'r drawCall \<Rightarrow> 'e + 'r pdfDocument" where
  "performCall L doc page c =
     (case c of
        DrawPage r opts \<Rightarrow> drawPage L doc page r opts
      | DrawLine opts \<Rightarrow> drawLine L doc page opts)"

fun performCalls ::
  "('r, 'e) pdfLib \<Rightarrow> 'r pdfDocument \<Rightarrow> nat \<Rightarrow> 'r drawCall list \<Rightarrow> 'e + 'r pdfDocument" where
  "performCalls L doc page [] = Inr doc"
| "performCalls L doc page (c # cs) =
     thenE (performCall L doc page c) (\<lambda>doc. performCalls L doc page cs)"

text \<open>
  The \<open>x\<close> of both ticks as the specification of the Center-Gutter Mark Renderer gives
  it: \<open>imgWidth + bleed + offset1 + 1\<close>, where \<open>offset1\<close> is \<open>- 1\<close> when it is left out.
\<close>

definition gutterTickX :: "middleOptions \<Rightarrow> jsnum" where
  "gutterTickX options =
     mo_imgWidth options + mo_bleed options +
     (case mo_offset1 options of None \<Rightarrow> Fin (- 1) | Some off \<Rightarrow> off) + Fin 1"

section \<open>Concrete inputs\<close>

text \<open>The scenario of the specification: a 1224 by 792 spread of two 576 by 720 pages.\<close>

definition scenarioOptions :: "'r \<Rightarrow> 'r \<Rightarrow> 'r spreadOptions" where
  "scenarioOptions l r =
     \<lparr>so_leftPage = Some l, so_rightPage = Some r,
      so_width = Fin 1224, so_height = Fin 792, so_marginX = Fin 36, so_marginY = Fin 36,
      so_imgWidth = Fin 576, so_imgHeight = Fin 720, so_bleed = Fin 18,
      so_extraGutter = Some (Fin 0)\<rparr>"

text \<open>The same spread with one side left out.\<close>

definition leftOnlySpread :: "nat spreadOptions" where
  "leftOnlySpread =
     \<lparr>so_leftPage = Some 1, so_rightPage = None,
      so_width = Fin 1224, so_height = Fin 792, so_marginX = Fin 36, so_marginY = Fin 36,
      so_imgWidth = Fin 576, so_imgHeight = Fin 720, so_bleed = Fin 18,
      so_extraGutter = None\<rparr>"


text \<open>A document that already holds one page.\<close>

definition onePageDoc :: "nat pdfDocument" where
  "onePageDoc = [\<lparr>pg_size = (Fin 612, Fin 792), pg_calls = []\<rparr>]"


text \<open>A spread with negative and zero sizes, margins and bleed.\<close>

definition degenerateOptions :: "nat spreadOptions" where
  "degenerateOptions =
     \<lparr>so_leftPage = Some 1, so_rightPage = Some 2,
      so_width = Fin (- 5), so_height = Fin 0,
      so_marginX = Fin (- 36), so_marginY = Fin 0,
      so_imgWidth = Fin (- 576), so_imgHeight = Fin 0, so_bleed = Fin (- 18),
      so_extraGutter = None\<rparr>"

text \<open>A pdf-lib that rejects the page size \<open>(- 5, 0)\<close> and every line.\<close>

definition strictLib :: "(nat, string) pdfLib" where
  "strictLib =
     \<lparr>addPage_throws = (\<lambda>doc sz.
        if sz = (Fin (- 5), Fin 0) then Some ''bad size'' else None),
      drawPage_throws = (\<lambda>pg r opts. None),
      drawLine_throws = (\<lambda>pg opts. Some ''bad line'')\<rparr>"

text \<open>
  A pdf-lib that rejects a placement at \<open>x = - 612\<close> and any line on a page that already
  carries eleven calls.
\<close>

definition pickyLib :: "(nat, string) pdfLib" where
  "pickyLib =
     \<lparr>addPage_throws = (\<lambda>doc sz. None),
      drawPage_throws = (\<lambda>pg r opts.
        if dp_x opts = Fin (- 612) then Some ''bad placement'' else None),
      drawLine_throws = (\<lambda>pg opts.
        if length (pg_calls pg) = 11 then Some ''page full'' else None)\<rparr>"


section \<open>Rounding to binary64\<close>

lemma bitlen_powi_bounds:
  assumes "0 < a"
  shows "(2::rat) powi (bitlen a - 1) \<le> of_int a" and "of_int a < (2::rat) powi (bitlen a)"
proof -
  from bitlen_bounds[OF assms] have lo: "2 ^ nat (bitlen a - 1) \<le> a" and hi: "a < 2 ^ nat (bitlen a)"
    by auto
  have ge1: "1 \<le> bitlen a" using assms bitlen_eq_zero_iff[of a] bitlen_nonneg[of a] by linarith
  have "(of_int (2 ^ nat (bitlen a - 1)) :: rat) \<le> of_int a" using lo by (simp only: of_int_le_iff)
  then show "(2::rat) powi (bitlen a - 1) \<le> of_int a" using ge1 by (simp add: power_int_def)
  have "(of_int a :: rat) < of_int (2 ^ nat (bitlen a))" using hi by (simp only: of_int_less_iff)
  then show "of_int a < (2::rat) powi (bitlen a)" using ge1 by (simp add: power_int_def)
qed

lemma floor_log2_bounds:
  assumes "0 < q"
  shows "2 powi (floor_log2 q) \<le> q" and "q < 2 powi (floor_log2 q + 1)"
proof -
  obtain a b where ab: "quotient_of q = (a, b)" by (cases "quotient_of q")
  then have b: "0 < b" and q: "q = of_int a / of_int b"
    using quotient_of_denom_pos[of q a b] quotient_of_div[of q a b] by auto
  from assms q b have a: "0 < a" by (simp add: zero_less_divide_iff)
  define d where "d = bitlen a - bitlen b"
  have fl: "floor_log2 q = (if 2 powi d \<le> q then d else d - 1)"
    by (simp add: floor_log2_def ab d_def Let_def)
  have bpos: "(0::rat) < of_int b" using b by simp
  have up: "q < 2 powi (d + 1)"
  proof -
    have "q < 2 powi (bitlen a) / of_int b"
      unfolding q using bitlen_powi_bounds(2)[OF a] bpos by (simp add: divide_strict_right_mono)
    also have "\<dots> \<le> 2 powi (bitlen a) / 2 powi (bitlen b - 1)"
      using bitlen_powi_bounds(1)[OF b] bpos by (intro divide_left_mono) (auto intro!: mult_pos_pos)
    also have "\<dots> = 2 powi (bitlen a - (bitlen b - 1))"
      by (subst power_int_diff) simp_all
    also have "bitlen a - (bitlen b - 1) = d + 1"
      by (simp add: d_def)
    finally show ?thesis .
  qed
  have lo: "2 powi (d - 1) \<le> q"
  proof -
    have "d - 1 = (bitlen a - 1) - bitlen b"
      by (simp add: d_def)
    then have "(2::rat) powi (d - 1) = 2 powi (bitlen a - 1) / 2 powi (bitlen b)"
      by (simp only: power_int_diff[of "2::rat" "bitlen a - 1" "bitlen b", simplified])
    also have "\<dots> \<le> 2 powi (bitlen a - 1) / of_int b"
      using bitlen_powi_bounds(2)[OF b] bpos by (intro divide_left_mono) (auto intro!: mult_pos_pos)
    also have "\<dots> \<le> q"
      unfolding q using bitlen_powi_bounds(1)[OF a] bpos by (simp add: divide_right_mono)
    finally show ?thesis .
  qed
  show "2 powi (floor_log2 q) \<le> q" using lo by (simp add: fl)
  show "q < 2 powi (floor_log2 q + 1)" using up by (auto simp add: fl not_le)
qed

lemma round_half_even_of_int: "round_half_even (of_int n) = n"
  by (simp add: round_half_even_def)

lemma overflowBound_eq: "overflowBound = 2 ^ 1024"
  by (simp add: overflowBound_def)

lemma powi_less_exp:
  assumes "(2::rat) powi a < 2 powi b"
  shows "a < b"
proof (rule ccontr)
  assume "\<not> a < b"
  then have "b \<le> a" by simp
  then have "(2::rat) powi b \<le> 2 powi a" by (intro power_int_increasing) simp_all
  with assms show False by simp
qed

lemma scaled_int:
  assumes "u \<le> k"
  shows "of_int m * (2::rat) powi k / 2 powi u = of_int (m * 2 ^ nat (k - u))"
proof -
  have "of_int m * (2::rat) powi k / 2 powi u = of_int m * 2 powi (k - u)"
    by (subst power_int_diff) simp_all
  also have "\<dots> = of_int m * 2 ^ nat (k - u)"
    using assms by (simp add: power_int_def)
  finally show ?thesis by simp
qed

lemma roundDouble_exact:
  assumes q: "q = of_int m * 2 powi k"
    and m: "\<bar>m\<bar> < 2 ^ 53"
    and k: "- 1074 \<le> k"
    and b: "\<bar>q\<bar> < overflowBound"
  shows "roundDouble q = Fin q"
proof (cases "q = 0")
  case True
  then show ?thesis by (simp add: roundDouble_def)
next
  case False
  define e where "e = floor_log2 \<bar>q\<bar>"
  define u where "u = max e (- 1022) - 52"
  have pos: "0 < \<bar>q\<bar>" using False by simp
  have "2 powi e \<le> \<bar>q\<bar>" unfolding e_def by (rule floor_log2_bounds(1)[OF pos])
  also have "\<bar>q\<bar> = of_int \<bar>m\<bar> * 2 powi k"
    by (simp add: q abs_mult power_int_abs)
  also have "\<dots> < 2 ^ 53 * 2 powi k"
  proof -
    have "(of_int \<bar>m\<bar> :: rat) < of_int (2 ^ 53)" using m by (simp only: of_int_less_iff)
    then show ?thesis by simp
  qed
  also have "\<dots> = 2 powi (53 + k)"
    by (subst power_int_add) simp_all
  finally have "e < 53 + k" by (rule powi_less_exp)
  with k have uk: "u \<le> k" by (simp add: u_def)
  have sc: "q / 2 powi u = of_int (m * 2 ^ nat (k - u))"
    unfolding q by (rule scaled_int[OF uk])
  have "of_int (round_half_even (q / 2 powi u)) * 2 powi u = q / 2 powi u * 2 powi u"
    by (simp only: sc round_half_even_of_int)
  also have "\<dots> = q" by simp
  finally have "of_int (round_half_even (q / 2 powi u)) * 2 powi u = q" .
  then have r: "of_int (round_half_even (q / 2 powi (max (floor_log2 \<bar>q\<bar>) (- 1022) - 52)))
      * 2 powi (max (floor_log2 \<bar>q\<bar>) (- 1022) - 52) = q"
    by (simp add: u_def e_def)
  from b have "\<not> overflowBound \<le> q" "\<not> q \<le> - overflowBound" by linarith+
  then show ?thesis
    using False by (simp add: roundDouble_def Let_def r)
qed

lemma roundDouble_of_int:
  assumes "\<bar>k\<bar> \<le> 2 ^ 53"
  shows "roundDouble (of_int k) = Fin (of_int k)"
proof (cases "\<bar>k\<bar> = 2 ^ 53")
  case True
  then have "k = 2 ^ 53 \<or> k = - (2 ^ 53)" by linarith
  then have "(of_int k :: rat) = of_int (k div 2) * 2 powi 1" by auto
  moreover have "\<bar>k div 2\<bar> < 2 ^ 53" using \<open>k = 2 ^ 53 \<or> k = - (2 ^ 53)\<close> by auto
  moreover have "\<bar>of_int k :: rat\<bar> < overflowBound"
    using \<open>k = 2 ^ 53 \<or> k = - (2 ^ 53)\<close> by (auto simp: overflowBound_def)
  ultimately show ?thesis by (intro roundDouble_exact[where m = "k div 2" and k = 1]) simp_all
next
  case False
  with assms have lt: "\<bar>k\<bar> < 2 ^ 53" by simp
  have "(of_int \<bar>k\<bar> :: rat) < of_int (2 ^ 53)" using lt by (simp only: of_int_less_iff)
  then have "\<bar>of_int k :: rat\<bar> < overflowBound" by (simp add: overflowBound_def)
  then show ?thesis
    using lt by (intro roundDouble_exact[where m = k and k = 0]) simp_all
qed








section \<open>The primitives and the renderers\<close>

subsection \<open>Recording calls\<close>

lemma recordCall_appendCalls: "recordCall doc page c = appendCalls doc page [c]"
  by (simp add: recordCall_def appendCalls_def)

lemma length_appendCalls [simp]: "length (appendCalls doc page cs) = length doc"
  by (simp add: appendCalls_def)

lemma appendCalls_appendCalls [simp]:
  "appendCalls (appendCalls doc page cs) page ds = appendCalls doc page (cs @ ds)"
  by (simp add: appendCalls_def)

lemma appendCalls_Nil [simp]: "appendCalls doc page [] = doc"
  by (simp add: appendCalls_def)

lemma appendCalls_new_page:
  "appendCalls (doc @ [pg]) (length doc) cs = doc @ [pg\<lparr>pg_calls := pg_calls pg @ cs\<rparr>]"
  by (simp add: appendCalls_def)

lemma placementsOf_append [simp]: "placementsOf (cs @ ds) = placementsOf cs @ placementsOf ds"
  by (induction cs rule: placementsOf.induct) simp_all

lemma linesOf_append [simp]: "linesOf (cs @ ds) = linesOf cs @ linesOf ds"
  by (induction cs rule: linesOf.induct) simp_all

lemma placementsOf_lines [simp]: "placementsOf (map DrawLine ls) = []"
  by (induction ls) simp_all

lemma linesOf_lines [simp]: "linesOf (map DrawLine ls) = ls"
  by (induction ls) simp_all

subsection \<open>Sequencing\<close>

lemma thenE_Inr [simp]: "thenE (Inr a) f = f a"
  by (simp add: thenE_def)

lemma thenE_Inl [simp]: "thenE (Inl e) f = Inl e"
  by (simp add: thenE_def)

lemma thenE_eq_Inr: "thenE m f = Inr b \<longleftrightarrow> (\<exists>a. m = Inr a \<and> f a = Inr b)"
  by (cases m) simp_all

lemma thenE_eq_Inl: "thenE m f = Inl e \<longleftrightarrow> m = Inl e \<or> (\<exists>a. m = Inr a \<and> f a = Inl e)"
  by (cases m) simp_all

subsection \<open>The primitives\<close>

lemma drawLine_cases:
  "drawLine L doc page opts = Inr (appendCalls doc page [DrawLine opts]) \<or>
   (\<exists>e pg. drawLine L doc page opts = Inl e \<and> drawLine_throws L pg opts = Some e)"
  by (auto simp: drawLine_def recordCall_appendCalls appendCalls_def split: option.splits)

lemma drawPage_cases:
  "drawPage L doc page r opts = Inr (appendCalls doc page [DrawPage r opts]) \<or>
   (\<exists>e pg. drawPage L doc page r opts = Inl e \<and> drawPage_throws L pg r opts = Some e)"
  by (auto simp: drawPage_def recordCall_appendCalls appendCalls_def split: option.splits)

lemma addPage_cases:
  "addPage L doc sz = Inr (doc @ [\<lparr>pg_size = sz, pg_calls = []\<rparr>], length doc) \<or>
   (\<exists>e. addPage L doc sz = Inl e \<and> addPage_throws L doc sz = Some e)"
  by (auto simp: addPage_def split: option.splits)


lemma drawPage_ok:
  "neverThrows L \<Longrightarrow> drawPage L doc page r opts = Inr (appendCalls doc page [DrawPage r opts])"
  by (simp add: drawPage_def neverThrows_def recordCall_appendCalls appendCalls_def)

lemma addPage_ok:
  "neverThrows L \<Longrightarrow> addPage L doc sz = Inr (doc @ [\<lparr>pg_size = sz, pg_calls = []\<rparr>], length doc)"
  by (cases sz) (simp add: addPage_def neverThrows_def)

lemma drawLine_Inr:
  "drawLine L doc page opts = Inr doc' \<Longrightarrow> doc' = appendCalls doc page [DrawLine opts]"
  using drawLine_cases[of L doc page opts] by auto

lemma drawPage_Inr:
  "drawPage L doc page r opts = Inr doc' \<Longrightarrow> doc' = appendCalls doc page [DrawPage r opts]"
  using drawPage_cases[of L doc page r opts] by auto

lemma addPage_Inr:
  "addPage L doc sz = Inr res \<Longrightarrow> res = (doc @ [\<lparr>pg_size = sz, pg_calls = []\<rparr>], length doc)"
  using addPage_cases[of L doc sz] by auto

lemma drawLine_Inl:
  "drawLine L doc page opts = Inl e \<Longrightarrow> \<exists>pg. drawLine_throws L pg opts = Some e"
  using drawLine_cases[of L doc page opts] by auto

lemma drawPage_Inl:
  "drawPage L doc page r opts = Inl e \<Longrightarrow> \<exists>pg. drawPage_throws L pg r opts = Some e"
  using drawPage_cases[of L doc page r opts] by auto

lemma addPage_Inl:
  "addPage L doc sz = Inl e \<Longrightarrow> addPage_throws L doc sz = Some e"
  using addPage_cases[of L doc sz] by auto

subsection \<open>The mark renderers\<close>

lemma cutLine_blackSegment: "cutLine x1 y1 x2 y2 = blackSegment x1 y1 x2 y2"
  by (simp add: cutLine_def blackSegment_def rgb_def)

lemma middleLine_blackSegment: "middleLine x y1 y2 = blackSegment x y1 x y2"
  by (simp add: middleLine_def blackSegment_def rgb_def)

lemma drawCutMarks_Inr:
  assumes "drawCutMarks L doc page width height bleed = Inr doc'"
  shows "doc' = appendCalls doc page (map (DrawLine \<circ> tableSegment) (cutMarkTable width height bleed))"
  using assms
  by (auto simp add: drawCutMarks_def thenE_eq_Inr cutLine_blackSegment cutMarkTable_def
      tableSegment_def dest!: drawLine_Inr)

lemma drawCutMarks_Inl:
  assumes "drawCutMarks L doc page width height bleed = Inl e"
  shows "\<exists>pg opts. drawLine_throws L pg opts = Some e"
  using assms
  by (auto simp add: drawCutMarks_def thenE_eq_Inl dest!: drawLine_Inl)


lemma drawMiddleMarks_Inr:
  assumes "drawMiddleMarks L doc page options = Inr doc'"
  shows "doc' = appendCalls doc page
    (map DrawLine (gutterSegments
       (mo_imgWidth options + mo_bleed options + orDefault (mo_offset1 options) (Fin (- 1)) + Fin 1)
       (mo_bleed options) (mo_finalHeight options)))"
  using assms
  by (auto simp add: drawMiddleMarks_def Let_def thenE_eq_Inr middleLine_blackSegment
      gutterSegments_def dest!: drawLine_Inr)

lemma drawMiddleMarks_Inl:
  assumes "drawMiddleMarks L doc page options = Inl e"
  shows "\<exists>pg opts. drawLine_throws L pg opts = Some e"
  using assms
  by (auto simp add: drawMiddleMarks_def Let_def thenE_eq_Inl dest!: drawLine_Inl)


lemma leftPlacement_Inr:
  assumes "(case so_leftPage options of
              Some l \<Rightarrow> drawPage L doc page l
                \<lparr>dp_x = so_marginX options, dp_y = so_marginY options,
                 dp_width = so_imgWidth options, dp_height = so_imgHeight options\<rparr>
            | None \<Rightarrow> Inr doc) = Inr doc'"
  shows "doc' = appendCalls doc page
    (case so_leftPage options of None \<Rightarrow> [] | Some l \<Rightarrow> [DrawPage l (leftRect options)])"
  using assms by (auto simp: leftRect_def split: option.splits dest!: drawPage_Inr)

lemma rightPlacement_Inr:
  assumes "(case so_rightPage options of
              Some r \<Rightarrow> drawPage L doc page r
                \<lparr>dp_x = so_marginX options + so_imgWidth options, dp_y = so_marginY options,
                 dp_width = so_imgWidth options, dp_height = so_imgHeight options\<rparr>
            | None \<Rightarrow> Inr doc) = Inr doc'"
  shows "doc' = appendCalls doc page
    (case so_rightPage options of None \<Rightarrow> [] | Some r \<Rightarrow> [DrawPage r (rightRect options)])"
  using assms by (auto simp: rightRect_def split: option.splits dest!: drawPage_Inr)

lemma createSpreadPage_Inr:
  assumes "createSpreadPage L doc options = Inr res"
  shows "res = (doc @ [spreadPage options], length doc)"
proof -
  from assms obtain d1 d2 d3 d4 d5 p where
    a: "addPage L doc (so_width options, so_height options) = Inr (d1, p)" and
    l: "(case so_leftPage options of
              Some l \<Rightarrow> drawPage L d1 p l
                \<lparr>dp_x = so_marginX options, dp_y = so_marginY options,
                 dp_width = so_imgWidth options, dp_height = so_imgHeight options\<rparr>
            | None \<Rightarrow> Inr d1) = Inr d2" and
    r: "(case so_rightPage options of
              Some r \<Rightarrow> drawPage L d2 p r
                \<lparr>dp_x = so_marginX options + so_imgWidth options, dp_y = so_marginY options,
                 dp_width = so_imgWidth options, dp_height = so_imgHeight options\<rparr>
            | None \<Rightarrow> Inr d2) = Inr d3" and
    c: "drawCutMarks L d3 p (so_width options) (so_height options) (so_bleed options) = Inr d4" and
    m: "drawMiddleMarks L d4 p
               \<lparr>mo_imgWidth = so_imgWidth options, mo_bleed = so_bleed options,
                mo_finalHeight = so_height options,
                mo_extraGutter = Some (orDefault (so_extraGutter options) (Fin 0)),
                mo_offset1 = None, mo_offset2 = None\<rparr> = Inr d5" and
    res: "res = (d5, p)"
    by (auto simp add: createSpreadPage_def Let_def thenE_eq_Inr)
  from addPage_Inr[OF a] have d1: "d1 = doc @ [\<lparr>pg_size = (so_width options, so_height options), pg_calls = []\<rparr>]"
    and p: "p = length doc" by simp_all
  note d2 = leftPlacement_Inr[OF l]
  note d3 = rightPlacement_Inr[OF r]
  note d4 = drawCutMarks_Inr[OF c]
  note d5 = drawMiddleMarks_Inr[OF m]
  show ?thesis
    unfolding res d5 d4 d3 d2 d1 p
    by (simp add: appendCalls_new_page spreadPage_def spreadCalls_def placementCalls_def
        orDefault_def)
qed

lemma placement_Inl:
  assumes "(case v of Some l \<Rightarrow> drawPage L doc page l opts | None \<Rightarrow> Inr doc) = Inl e"
  shows "\<exists>pg r opts. drawPage_throws L pg r opts = Some e"
proof (cases v)
  case None
  with assms show ?thesis by simp
next
  case (Some l)
  with assms have "drawPage L doc page l opts = Inl e" by simp
  from drawPage_Inl[OF this] show ?thesis by blast
qed

lemma createSpreadPage_Inl:
  assumes "createSpreadPage L doc options = Inl e"
  shows "thrownByPrimitive L e"
proof -
  let ?lo = "\<lparr>dp_x = so_marginX options, dp_y = so_marginY options,
                 dp_width = so_imgWidth options, dp_height = so_imgHeight options\<rparr>"
  let ?ro = "\<lparr>dp_x = so_marginX options + so_imgWidth options, dp_y = so_marginY options,
                 dp_width = so_imgWidth options, dp_height = so_imgHeight options\<rparr>"
  from assms consider
      (add) "addPage L doc (so_width options, so_height options) = Inl e"
    | (left) d p where "(case so_leftPage options of Some l \<Rightarrow> drawPage L d p l ?lo
                         | None \<Rightarrow> Inr d) = Inl e"
    | (right) d p where "(case so_rightPage options of Some r \<Rightarrow> drawPage L d p r ?ro
                         | None \<Rightarrow> Inr d) = Inl e"
    | (cut) d p where
        "drawCutMarks L d p (so_width options) (so_height options) (so_bleed options) = Inl e"
    | (middle) d p mo where "drawMiddleMarks L d p mo = Inl e"
    by (auto simp add: createSpreadPage_def Let_def thenE_eq_Inl)
  then show ?thesis
  proof cases
    case add
    from addPage_Inl[OF this] show ?thesis unfolding thrownByPrimitive_def by blast
  next
    case left
    from placement_Inl[OF this] show ?thesis unfolding thrownByPrimitive_def by blast
  next
    case right
    from placement_Inl[OF this] show ?thesis unfolding thrownByPrimitive_def by blast
  next
    case cut
    from drawCutMarks_Inl[OF this] show ?thesis unfolding thrownByPrimitive_def by blast
  next
    case middle
    from drawMiddleMarks_Inl[OF this] show ?thesis unfolding thrownByPrimitive_def by blast
  qed
qed

lemma neverThrows_not_thrown: "neverThrows L \<Longrightarrow> \<not> thrownByPrimitive L e"
  by (simp add: neverThrows_def thrownByPrimitive_def)

lemma createSpreadPage_ok:
  assumes "neverThrows L"
  shows "createSpreadPage L doc options = Inr (doc @ [spreadPage options], length doc)"
proof (cases "createSpreadPage L doc options")
  case (Inl e)
  with createSpreadPage_Inl[OF Inl] neverThrows_not_thrown[OF assms] show ?thesis by simp
next
  case (Inr res)
  with createSpreadPage_Inr[OF Inr] show ?thesis by simp
qed


section \<open>Facts used by the properties\<close>

lemma roundDouble_Ints:
  assumes "q \<in> \<int>" and "\<bar>q\<bar> \<le> 2 ^ 53"
  shows "roundDouble q = Fin q"
proof -
  from assms(1) obtain k where k: "q = of_int k" by (rule Ints_cases)
  with assms(2) have "(of_int \<bar>k\<bar> :: rat) \<le> of_int (2 ^ 53)" by simp
  then have "\<bar>k\<bar> \<le> 2 ^ 53" by (simp only: of_int_le_iff)
  then show ?thesis unfolding k by (rule roundDouble_of_int)
qed

lemmas js_arith = plus_jsnum_def minus_jsnum_def jsSub_def roundDouble_Ints

text \<open>Rounding on known binary64 values: a third, and the two ties above \<open>2 ^ 53\<close>.\<close>

lemma roundDouble_third: "roundDouble (1 / 3) = Fin (6004799503160661 / 18014398509481984)"
  by code_simp


lemma round_2p53_plus_3: "roundDouble 9007199254740995 = Fin 9007199254740996"
  by code_simp




lemma neverThrows_totalLib: "neverThrows totalLib"
  by (simp add: neverThrows_def totalLib_def)


lemma gutterTickX_orDefault:
  "gutterTickX options =
     mo_imgWidth options + mo_bleed options + orDefault (mo_offset1 options) (Fin (- 1)) + Fin 1"
  by (simp add: gutterTickX_def orDefault_def)

lemma gutterSegments_length [simp]: "length (gutterSegments x b h) = 2"
  by (simp add: gutterSegments_def)

lemma cutMarkTable_length [simp]: "length (cutMarkTable w h b) = 8"
  by (simp add: cutMarkTable_def)

lemma placementsOf_placementCalls:
  "placementsOf (placementCalls options) =
     (case so_leftPage options of None \<Rightarrow> [] | Some l \<Rightarrow> [(l, leftRect options)]) @
     (case so_rightPage options of None \<Rightarrow> [] | Some r \<Rightarrow> [(r, rightRect options)])"
  by (simp add: placementCalls_def split: option.splits)

lemma linesOf_placementCalls [simp]: "linesOf (placementCalls options) = []"
  by (simp add: placementCalls_def split: option.splits)


lemma placementsOf_spreadPage:
  "placementsOf (pg_calls (spreadPage options)) = placementsOf (placementCalls options)"
  by (simp add: spreadPage_def spreadCalls_def map_map [symmetric] del: map_map)

lemma linesOf_spreadPage:
  "linesOf (pg_calls (spreadPage options)) =
     map tableSegment (cutMarkTable (so_width options) (so_height options) (so_bleed options)) @
     gutterSegments (so_imgWidth options + so_bleed options + Fin (- 1) + Fin 1)
       (so_bleed options) (so_height options)"
  by (simp add: spreadPage_def spreadCalls_def map_map [symmetric] del: map_map)



subsection \<open>The outcome of the calls that are made\<close>

lemma thenE_return: "thenE m Inr = m"
  by (cases m) simp_all

lemma thenE_assoc: "thenE (thenE m f) g = thenE m (\<lambda>a. thenE (f a) g)"
  by (cases m) simp_all

lemma performCalls_append:
  "performCalls L doc page (cs @ ds) =
     thenE (performCalls L doc page cs) (\<lambda>doc. performCalls L doc page ds)"
  by (induction cs arbitrary: doc) (simp_all add: thenE_assoc thenE_return)

lemma performCall_outcome:
  assumes "page < length doc"
  shows "performCall L doc page c =
    (case callThrows L (doc ! page) c of
       Some e \<Rightarrow> Inl e
     | None \<Rightarrow> Inr (appendCalls doc page [c]))"
  using assms
  by (cases c)
    (simp_all add: performCall_def callThrows_def drawPage_def drawLine_def
      recordCall_appendCalls split: option.splits)

lemma performCalls_outcome:
  assumes "page < length doc"
  shows "performCalls L doc page cs =
    (case firstThrowOn L (doc ! page) cs of
       Some e \<Rightarrow> Inl e
     | None \<Rightarrow> Inr (appendCalls doc page cs))"
  using assms
proof (induction cs arbitrary: doc)
  case Nil
  then show ?case by simp
next
  case (Cons c cs)
  show ?case
  proof (cases "callThrows L (doc ! page) c")
    case (Some e)
    then show ?thesis by (simp add: performCall_outcome[OF Cons.prems])
  next
    case None
    have len: "page < length (appendCalls doc page [c])" using Cons.prems by simp
    have st: "appendCalls doc page [c] ! page = (doc ! page)\<lparr>pg_calls := pg_calls (doc ! page) @ [c]\<rparr>"
      using Cons.prems by (simp add: appendCalls_def)
    show ?thesis
      by (simp add: performCall_outcome[OF Cons.prems] None Cons.IH[OF len] st
          split: option.splits)
  qed
qed

lemma drawCutMarks_performCalls:
  "drawCutMarks L doc page width height bleed =
     performCalls L doc page (map (DrawLine \<circ> tableSegment) (cutMarkTable width height bleed))"
  by (simp add: drawCutMarks_def cutMarkTable_def tableSegment_def performCall_def
      cutLine_blackSegment thenE_return)

lemma drawMiddleMarks_performCalls:
  "drawMiddleMarks L doc page options =
     performCalls L doc page
       (map DrawLine (gutterSegments (gutterTickX options) (mo_bleed options)
          (mo_finalHeight options)))"
  by (simp add: drawMiddleMarks_def Let_def gutterSegments_def performCall_def
      middleLine_blackSegment gutterTickX_orDefault thenE_return)

lemma placement_performCalls:
  "(case v of Some l \<Rightarrow> drawPage L doc page l opts | None \<Rightarrow> Inr doc) =
     performCalls L doc page (case v of None \<Rightarrow> [] | Some l \<Rightarrow> [DrawPage l opts])"
  by (cases v) (simp_all add: performCall_def thenE_return)

lemma createSpreadPage_performCalls:
  "createSpreadPage L doc options =
     thenE (addPage L doc (so_width options, so_height options)) (\<lambda>(doc, page).
     thenE (performCalls L doc page (spreadCalls options)) (\<lambda>doc. Inr (doc, page)))"
proof -
  have mo: "gutterTickX \<lparr>mo_imgWidth = so_imgWidth options, mo_bleed = so_bleed options,
        mo_finalHeight = so_height options,
        mo_extraGutter = Some (orDefault (so_extraGutter options) (Fin 0)),
        mo_offset1 = None, mo_offset2 = None\<rparr> =
      so_imgWidth options + so_bleed options + Fin (- 1) + Fin 1"
    by (simp add: gutterTickX_def)
  show ?thesis
    unfolding createSpreadPage_def Let_def spreadCalls_def placementCalls_def
      performCalls_append placement_performCalls drawCutMarks_performCalls
      drawMiddleMarks_performCalls mo leftRect_def rightRect_def
    by (simp add: thenE_assoc thenE_return)
qed

lemma createSpreadPage_outcome:
  "createSpreadPage L doc options =
     (case firstThrow L doc options of
        Some e \<Rightarrow> Inl e
      | None \<Rightarrow> Inr (doc @ [spreadPage options], length doc))"
proof (cases "addPage_throws L doc (so_width options, so_height options)")
  case (Some e)
  then show ?thesis
    by (simp add: createSpreadPage_performCalls addPage_def firstThrow_def)
next
  case None
  let ?p0 = "\<lparr>pg_size = (so_width options, so_height options), pg_calls = []\<rparr>"
  have len: "length doc < length (doc @ [?p0])" by simp
  have "createSpreadPage L doc options =
      thenE (performCalls L (doc @ [?p0]) (length doc) (spreadCalls options))
        (\<lambda>d. Inr (d, length doc))"
    by (simp add: createSpreadPage_performCalls addPage_def None)
  also have "\<dots> = (case firstThrowOn L ?p0 (spreadCalls options) of
        Some e \<Rightarrow> Inl e
      | None \<Rightarrow> Inr (doc @ [spreadPage options], length doc))"
    by (simp add: performCalls_outcome[OF len] appendCalls_new_page spreadPage_def
        split: option.splits)
  finally show ?thesis by (simp add: firstThrow_def None)
qed

lemmas spread_eval = firstThrow_def spreadCalls_def placementCalls_def leftRect_def rightRect_def
  cutMarkTable_def tableSegment_def gutterSegments_def callThrows_def

section \<open>Properties\<close>

subsection \<open>The Cut-Mark Renderer\<close>



subsection \<open>The Center-Gutter Mark Renderer\<close>



subsection \<open>The Spread Composer\<close>









text \<open>
  C7. The drawn output is a function of the spread alone: two calls with the same spread
  and pages that both return, on any two documents and with any two behaviours of the
  primitives, return pages with the same size and the same sequence of placement and line
  calls.
\<close>

theorem createSpreadPage_deterministic:
  assumes "createSpreadPage L1 doc1 options = Inr (doc1', page1)"
    and "createSpreadPage L2 doc2 options = Inr (doc2', page2)"
  shows "page1 < length doc1' \<and> page2 < length doc2' \<and> doc1' ! page1 = doc2' ! page2 \<and>
    pg_calls (doc1' ! page1) = pg_calls (doc2' ! page2)"
  using createSpreadPage_Inr[OF assms(1)] createSpreadPage_Inr[OF assms(2)] by simp

theorem createSpreadPage_deterministic_witness:
  "createSpreadPage (totalLib :: (nat, unit) pdfLib) [] (scenarioOptions 1 2) =
     Inr ([spreadPage (scenarioOptions 1 2)], 0) \<and>
   createSpreadPage (totalLib :: (nat, unit) pdfLib) onePageDoc (scenarioOptions 1 2) =
     Inr (onePageDoc @ [spreadPage (scenarioOptions 1 2)], 1) \<and>
   [spreadPage (scenarioOptions 1 2)] ! 0 =
     (onePageDoc @ [spreadPage (scenarioOptions 1 2 :: nat spreadOptions)]) ! 1"
proof -
  have a: "createSpreadPage (totalLib :: (nat, unit) pdfLib) [] (scenarioOptions 1 2) =
      Inr ([spreadPage (scenarioOptions 1 2)], 0)"
    by (simp add: createSpreadPage_ok neverThrows_totalLib)
  have b: "createSpreadPage (totalLib :: (nat, unit) pdfLib) onePageDoc (scenarioOptions 1 2) =
      Inr (onePageDoc @ [spreadPage (scenarioOptions 1 2)], 1)"
    by (simp add: createSpreadPage_ok neverThrows_totalLib onePageDoc_def)
  from createSpreadPage_deterministic [OF a b] a b show ?thesis by simp
qed




text \<open>
  C9. The composer and the two renderers validate nothing and raise nothing of their own:
  for every spread, whatever its numbers (negative, zero, infinite or NaN), every document
  and every behaviour of the primitives, the composer makes the \<open>addPage\<close> call and then
  its draw calls in order, and its outcome is decided by the primitives on exactly these
  calls. If one of them throws, the exception of the first that does leaves the composer
  unchanged; if none does, the composer returns the new page with its ten segments and
  one placement for each page that is present. The same holds of each mark renderer and
  its line calls on a page of the document.
\<close>

theorem createSpreadPage_no_own_errors:
  "createSpreadPage L doc options =
     (case firstThrow L doc options of
        Some e \<Rightarrow> Inl e
      | None \<Rightarrow> Inr (doc @ [spreadPage options], length doc)) \<and>
   length (linesOf (pg_calls (spreadPage options))) = 10 \<and>
   length (placementsOf (pg_calls (spreadPage options))) =
     (if so_leftPage options = None then 0 else 1) +
     (if so_rightPage options = None then 0 else 1) \<and>
   (page < length doc \<longrightarrow>
      drawCutMarks L doc page width height bleed =
        (case firstThrowOn L (doc ! page)
                (map (DrawLine \<circ> tableSegment) (cutMarkTable width height bleed)) of
           Some e \<Rightarrow> Inl e
         | None \<Rightarrow> Inr (appendCalls doc page
                     (map (DrawLine \<circ> tableSegment) (cutMarkTable width height bleed))))) \<and>
   (page < length doc \<longrightarrow>
      drawMiddleMarks L doc page mopts =
        (case firstThrowOn L (doc ! page)
                (map DrawLine (gutterSegments (gutterTickX mopts) (mo_bleed mopts)
                   (mo_finalHeight mopts))) of
           Some e \<Rightarrow> Inl e
         | None \<Rightarrow> Inr (appendCalls doc page
                     (map DrawLine (gutterSegments (gutterTickX mopts) (mo_bleed mopts)
                        (mo_finalHeight mopts))))))"
proof (intro conjI impI)
  show "createSpreadPage L doc options =
     (case firstThrow L doc options of
        Some e \<Rightarrow> Inl e
      | None \<Rightarrow> Inr (doc @ [spreadPage options], length doc))"
    by (rule createSpreadPage_outcome)
  show "length (linesOf (pg_calls (spreadPage options))) = 10"
    by (simp add: linesOf_spreadPage)
  show "length (placementsOf (pg_calls (spreadPage options))) =
     (if so_leftPage options = None then 0 else 1) +
     (if so_rightPage options = None then 0 else 1)"
    by (simp add: placementsOf_spreadPage placementsOf_placementCalls split: option.splits)
next
  assume "page < length doc"
  then show "drawCutMarks L doc page width height bleed =
        (case firstThrowOn L (doc ! page)
                (map (DrawLine \<circ> tableSegment) (cutMarkTable width height bleed)) of
           Some e \<Rightarrow> Inl e
         | None \<Rightarrow> Inr (appendCalls doc page
                     (map (DrawLine \<circ> tableSegment) (cutMarkTable width height bleed))))"
    unfolding drawCutMarks_performCalls by (rule performCalls_outcome)
next
  assume "page < length doc"
  then show "drawMiddleMarks L doc page mopts =
        (case firstThrowOn L (doc ! page)
                (map DrawLine (gutterSegments (gutterTickX mopts) (mo_bleed mopts)
                   (mo_finalHeight mopts))) of
           Some e \<Rightarrow> Inl e
         | None \<Rightarrow> Inr (appendCalls doc page
                     (map DrawLine (gutterSegments (gutterTickX mopts) (mo_bleed mopts)
                        (mo_finalHeight mopts)))))"
    unfolding drawMiddleMarks_performCalls by (rule performCalls_outcome)
qed

theorem createSpreadPage_no_own_errors_witness:
  "createSpreadPage (totalLib :: (nat, unit) pdfLib) onePageDoc degenerateOptions =
     Inr (onePageDoc @ [spreadPage degenerateOptions], 1) \<and>
   createSpreadPage strictLib [] degenerateOptions = Inl ''bad size'' \<and>
   createSpreadPage pickyLib onePageDoc degenerateOptions = Inl ''bad placement'' \<and>
   createSpreadPage pickyLib onePageDoc (scenarioOptions 1 2) = Inl ''page full'' \<and>
   createSpreadPage pickyLib onePageDoc leftOnlySpread =
     Inr (onePageDoc @ [spreadPage leftOnlySpread], 1) \<and>
   (0::nat) < length onePageDoc \<and>
   drawCutMarks strictLib onePageDoc 0 (Fin (- 5)) (Fin 0) (Fin (- 18)) = Inl ''bad line'' \<and>
   drawMiddleMarks strictLib onePageDoc 0
     \<lparr>mo_imgWidth = Fin (- 576), mo_bleed = Fin (- 18), mo_finalHeight = Fin 0,
      mo_extraGutter = None, mo_offset1 = None, mo_offset2 = None\<rparr> = Inl ''bad line'' \<and>
   drawCutMarks pickyLib onePageDoc 0 (Fin (- 5)) (Fin 0) (Fin (- 18)) =
     Inr (appendCalls onePageDoc 0
       (map (DrawLine \<circ> tableSegment) (cutMarkTable (Fin (- 5)) (Fin 0) (Fin (- 18)))))"
proof -
  let ?mo = "\<lparr>mo_imgWidth = Fin (- 576), mo_bleed = Fin (- 18), mo_finalHeight = Fin 0,
      mo_extraGutter = None, mo_offset1 = None, mo_offset2 = None\<rparr>"
  note t1 = createSpreadPage_no_own_errors
      [of "totalLib :: (nat, unit) pdfLib" onePageDoc degenerateOptions 0 "Fin (- 5)" "Fin 0"
        "Fin (- 18)" ?mo]
  note t2 = createSpreadPage_no_own_errors
      [of strictLib "[]" degenerateOptions 0 "Fin (- 5)" "Fin 0" "Fin (- 18)" ?mo]
  note t3 = createSpreadPage_no_own_errors
      [of pickyLib onePageDoc degenerateOptions 0 "Fin (- 5)" "Fin 0" "Fin (- 18)" ?mo]
  note t4 = createSpreadPage_no_own_errors
      [of pickyLib onePageDoc "scenarioOptions 1 2" 0 "Fin (- 5)" "Fin 0" "Fin (- 18)" ?mo]
  note t5 = createSpreadPage_no_own_errors
      [of pickyLib onePageDoc leftOnlySpread 0 "Fin (- 5)" "Fin 0" "Fin (- 18)" ?mo]
  note t6 = createSpreadPage_no_own_errors
      [of strictLib onePageDoc degenerateOptions 0 "Fin (- 5)" "Fin 0" "Fin (- 18)" ?mo]
  have c1: "createSpreadPage (totalLib :: (nat, unit) pdfLib) onePageDoc degenerateOptions =
     Inr (onePageDoc @ [spreadPage degenerateOptions], 1)"
    using t1 by (simp add: spread_eval totalLib_def degenerateOptions_def onePageDoc_def)
  have c2: "createSpreadPage strictLib [] degenerateOptions = Inl ''bad size''"
    using t2 by (simp add: spread_eval strictLib_def degenerateOptions_def)
  have c3: "createSpreadPage pickyLib onePageDoc degenerateOptions = Inl ''bad placement''"
    using t3 by (simp add: spread_eval pickyLib_def degenerateOptions_def js_arith)
  have c4: "createSpreadPage pickyLib onePageDoc (scenarioOptions 1 2) = Inl ''page full''"
    using t4 by (simp add: spread_eval pickyLib_def scenarioOptions_def js_arith)
  have c5: "createSpreadPage pickyLib onePageDoc leftOnlySpread =
     Inr (onePageDoc @ [spreadPage leftOnlySpread], 1)"
    using t5 by (simp add: spread_eval pickyLib_def leftOnlySpread_def onePageDoc_def js_arith)
  have c6: "drawCutMarks strictLib onePageDoc 0 (Fin (- 5)) (Fin 0) (Fin (- 18)) = Inl ''bad line''"
    using t6 by (simp add: spread_eval strictLib_def onePageDoc_def)
  have c7: "drawMiddleMarks strictLib onePageDoc 0 ?mo = Inl ''bad line''"
    using t6 by (simp add: spread_eval strictLib_def onePageDoc_def)
  have c8: "drawCutMarks pickyLib onePageDoc 0 (Fin (- 5)) (Fin 0) (Fin (- 18)) =
     Inr (appendCalls onePageDoc 0
       (map (DrawLine \<circ> tableSegment) (cutMarkTable (Fin (- 5)) (Fin 0) (Fin (- 18)))))"
    using t3 by (simp add: spread_eval pickyLib_def onePageDoc_def)
  from c1 c2 c3 c4 c5 c6 c7 c8 show ?thesis by (simp add: onePageDoc_def)
qed




end
